theory Spec2Isabelle
  imports Complex_Main
begin

section \<open>The blocks of the flowgraph\<close>

text \<open>
  The GNU Radio blocks are library objects. A block is modelled by the arguments its
  constructor receives; the library constructors themselves are taken to return.
  The taps that \<^verbatim>\<open>firdes.low_pass\<close> computes are represented by its arguments.
\<close>

datatype win_type = WIN_HAMMING

record low_pass =
  gain :: real
  sampling_freq :: real
  cutoff_freq :: real
  transition_width :: real
  window :: win_type

record freq_xlating_fir_filter =
  xlating_decimation :: int
  xlating_taps :: low_pass
  xlating_center_freq :: real
  xlating_sampling_freq :: real

record fir_filter =
  decimation :: int
  taps :: low_pass

record pwr_squelch =
  db :: real
  alpha :: real
  ramp :: int
  gate :: bool

record pfb_arb_resampler =
  rate :: real
  flt_size :: nat

datatype wav_format = FORMAT_WAV

datatype wav_subformat = FORMAT_PCM_16 | FORMAT_PCM_08

record wavfile_sink =
  filename :: string
  n_channels :: int
  sample_rate :: int
  format :: wav_format
  subformat :: wav_subformat
  append :: bool

datatype item_size = Sizeof_gr_complex | Sizeof_float

text \<open>The nodes that \<^verbatim>\<open>self.connect\<close> joins; \<open>Self\<close> is the hierarchical block's own port.\<close>

datatype block =
    Self
  | Freq_xlating_fir_filter_ccc
  | Fir_filter_ccc_0
  | Fir_filter_ccc_1
  | Analog_pwr_squelch_cc
  | Analog_quadrature_demod_cf
  | Fir_filter_fff_0
  | Pfb_arb_resampler_fff
  | Analog_pwr_squelch_ff
  | Blocks_wavfile_sink
  | Null_sink1

text \<open>
  The library object behind a node of the flowgraph. What a library block does to a
  stream is a parameter \<open>sem\<close> of the development: any function from the object and its
  input stream to its output stream.
\<close>

datatype block_object =
    Port
  | Xlating freq_xlating_fir_filter
  | Fir fir_filter
  | Squelch pwr_squelch
  | Quadrature_demod real
  | Resampler pfb_arb_resampler
  | Wavfile wavfile_sink
  | Null item_size
  | Absent

text \<open>
  A call into the library made by the constructor: a filter design by \<^verbatim>\<open>firdes.low_pass\<close>,
  or the construction of a block from its arguments.
\<close>

datatype library_call = Firdes_low_pass low_pass | Make block_object

section \<open>Python values\<close>

text \<open>
  The embedding follows \<^verbatim>\<open>apps/demodulators/WBFM.py\<close>. Python's unbounded \<^verbatim>\<open>int\<close> is
  \<^typ>\<open>int\<close>. A Python \<^verbatim>\<open>float\<close> is a \<^typ>\<open>real\<close>. Exceptions are values of
  \<open>error\<close>, a raising computation returns \<open>Inl\<close>; \<open>LibraryError c\<close> is the exception
  with which the library refuses the call \<open>c\<close>.
\<close>

datatype error =
    ValueError
  | IndexError
  | ZeroDivisionError
  | OverflowError
  | LibraryError library_call

text \<open>\<^verbatim>\<open>int(x)\<close> on a float truncates toward zero.\<close>

definition py_int :: "real \<Rightarrow> int" where
  "py_int x = (if 0 \<le> x then \<lfloor>x\<rfloor> else \<lceil>x\<rceil>)"

text \<open>
  Floats are IEEE binary64 numbers and an arithmetic result is the binary64 number nearest
  to the exact result, a tie going to the even significand. \<open>binary64 x\<close> is that number:
  a multiple of \<open>2 ^ (e - 52)\<close>, where \<open>e\<close> is the binary exponent of \<open>x\<close> and at least
  \<open>-1022\<close> (below that the numbers are subnormal and evenly spaced). The exponent is not
  bounded above here; where the source can overflow the float range, the bound is written
  out in the operation (\<open>py_float_pow\<close>).
\<close>

definition round_half_even :: "real \<Rightarrow> int" where
  "round_half_even y =
     (if y - real_of_int \<lfloor>y\<rfloor> < 1 / 2 then \<lfloor>y\<rfloor>
      else if 1 / 2 < y - real_of_int \<lfloor>y\<rfloor> then \<lfloor>y\<rfloor> + 1
      else if even \<lfloor>y\<rfloor> then \<lfloor>y\<rfloor> else \<lfloor>y\<rfloor> + 1)"

definition binary64_exponent :: "real \<Rightarrow> int" where
  "binary64_exponent x = max \<lfloor>log 2 \<bar>x\<bar>\<rfloor> (- 1022)"

definition binary64 :: "real \<Rightarrow> real" where
  "binary64 x =
     (if x = 0 then 0
      else sgn x
           * real_of_int (round_half_even (\<bar>x\<bar> / 2 powr real_of_int (binary64_exponent x - 52)))
           * 2 powr real_of_int (binary64_exponent x - 52))"

text \<open>
  \<^verbatim>\<open>a / b\<close>: true division, raising on a zero divisor. \<open>py_truediv\<close> is the quotient
  itself and stands where the source only hands the quotient on as the design rate of a
  filter (lines 107 and 124); \<open>py_truediv_binary64\<close> is the quotient as the float that
  Python computes and stands where the source computes with the result (line 133).
\<close>

definition py_truediv :: "real \<Rightarrow> real \<Rightarrow> error + real" where
  "py_truediv a b = (if b = 0 then Inl ZeroDivisionError else Inr (a / b))"

definition py_truediv_binary64 :: "real \<Rightarrow> real \<Rightarrow> error + real" where
  "py_truediv_binary64 a b =
     (if b = 0 then Inl ZeroDivisionError else Inr (binary64 (a / b)))"


text \<open>\<^verbatim>\<open>~i\<close> on an int is \<open>- i - 1\<close>; an int is true in a condition when it is not zero.\<close>

definition py_invert :: "int \<Rightarrow> int" where
  "py_invert i = - i - 1"

definition py_truth :: "int \<Rightarrow> bool" where
  "py_truth i = (i \<noteq> 0)"

text \<open>\<^verbatim>\<open>xs.index(x)\<close>: the position of the first element equal to \<open>x\<close>, or ValueError.\<close>

fun py_index :: "'a list \<Rightarrow> 'a \<Rightarrow> error + int" where
  "py_index [] x = Inl ValueError"
| "py_index (y # ys) x =
     (if y = x then Inr 0
      else case py_index ys x of Inl e \<Rightarrow> Inl e | Inr i \<Rightarrow> Inr (i + 1))"

text \<open>
  \<^verbatim>\<open>xs[i]\<close>: positions run from 0, the positions \<open>-1\<close> down to \<open>- len(xs)\<close> address
  the list backwards, any other position raises IndexError.
\<close>

definition py_getitem :: "'a list \<Rightarrow> int \<Rightarrow> error + 'a" where
  "py_getitem xs i =
     (if 0 \<le> i \<and> i < int (length xs) then Inr (xs ! nat i)
      else if i < 0 \<and> - int (length xs) \<le> i then Inr (xs ! nat (int (length xs) + i))
      else Inl IndexError)"

section \<open>The demodulator object\<close>

text \<open>
  Modelled from the spec: \<^verbatim>\<open>BaseTuner.__init__\<close> (module \<^verbatim>\<open>demodulators.BaseTuner\<close>) is
  not part of the sources at hand. It receives the audio rate, the audio bit depth and the
  minimum recording duration, together with the classifier and the notification callback
  that belong to the owning session; it is taken to store the chosen bit depth as
  \<^verbatim>\<open>self.audio_bps\<close>, which the constructor below reads back. The classifier and the
  callback are handles that the constructor only passes on; they are left out.
\<close>

record base_tuner =
  audio_rate :: int
  audio_bps :: int
  min_recording :: real

definition BaseTuner_init :: "int \<Rightarrow> int \<Rightarrow> real \<Rightarrow> base_tuner" where
  "BaseTuner_init a_rate a_bps min_rec =
     \<lparr>audio_rate = a_rate, audio_bps = a_bps, min_recording = min_rec\<rparr>"

record tuner = base_tuner +
  input_signature :: item_size
  output_signature :: item_size
  center_freq :: real
  quad_demod_gain :: real
  file_name :: "string option"
  record_flag :: bool
  decims :: "int \<times> int"
  freq_xlating_fir_filter_ccc :: freq_xlating_fir_filter
  fir_filter_ccc_0 :: fir_filter
  fir_filter_ccc_1 :: fir_filter
  analog_pwr_squelch_cc :: pwr_squelch
  analog_quadrature_demod_cf :: real
  fir_filter_fff_0 :: fir_filter
  pfb_arb_resampler_fff :: pfb_arb_resampler
  analog_pwr_squelch_ff :: pwr_squelch
  blocks_wavfile_sink :: "wavfile_sink option"
  null_sink1 :: "item_size option"
  connections :: "(block \<times> block) list"
  ctcss_index :: "int option"
  ctcss_tone :: "real option"

text \<open>
  The recording branch of \<^verbatim>\<open>__init__\<close> (lines 152 to 171): the sample format of the wav
  file sink, the sink itself and the two connections of the sink branch.
\<close>

definition wav_format_of :: "int \<Rightarrow> wav_subformat" where
  "wav_format_of bps =
     (if bps = 16 then FORMAT_PCM_16
      else if bps = 8 then FORMAT_PCM_08
      else FORMAT_PCM_16)"

definition connect_recording :: "bool \<Rightarrow> int \<Rightarrow> int \<Rightarrow>
    wavfile_sink option \<times> item_size option \<times> (block \<times> block) list" where
  "connect_recording rec bps a_rate =
     (if rec then
        (Some \<lparr>filename = ''/dev/null'', n_channels = 1, sample_rate = a_rate,
               format = FORMAT_WAV, subformat = wav_format_of bps, append = False\<rparr>,
         None,
         [(Pfb_arb_resampler_fff, Analog_pwr_squelch_ff),
          (Analog_pwr_squelch_ff, Blocks_wavfile_sink)])
      else
        (None,
         Some Sizeof_float,
         [(Pfb_arb_resampler_fff, Analog_pwr_squelch_ff),
          (Analog_pwr_squelch_ff, Null_sink1)]))"

text \<open>The eight connections of the demodulation chain (lines 138 to 146).\<close>

definition demod_connections :: "(block \<times> block) list" where
  "demod_connections =
     [(Self, Freq_xlating_fir_filter_ccc),
      (Freq_xlating_fir_filter_ccc, Fir_filter_ccc_0),
      (Fir_filter_ccc_0, Fir_filter_ccc_1),
      (Fir_filter_ccc_1, Analog_pwr_squelch_cc),
      (Analog_pwr_squelch_cc, Analog_quadrature_demod_cf),
      (Analog_quadrature_demod_cf, Fir_filter_fff_0),
      (Fir_filter_fff_0, Pfb_arb_resampler_fff),
      (Pfb_arb_resampler_fff, Self)]"

text \<open>The decimation values (line 86): \<^verbatim>\<open>decims = (5, int(samp_rate/1E6))\<close>.\<close>

definition decims_of :: "int \<Rightarrow> int \<times> int" where
  "decims_of samp_rate = (5, py_int (real_of_int samp_rate / 1000000))"

text \<open>
  The library is a parameter of the constructor: \<open>lib c\<close> tells whether the library
  accepts the call \<open>c\<close> and returns; when it does not, the call raises and the constructor
  ends with that exception. The sources at hand do not contain the library.
\<close>

definition called :: "(library_call \<Rightarrow> bool) \<Rightarrow> library_call \<Rightarrow> error + 'a \<Rightarrow> error + 'a" where
  "called lib c k = (if lib c then k else Inl (LibraryError c))"

text \<open>
  \<^verbatim>\<open>TunerDemodWBFM.__init__\<close>, statement by statement. The library calls that build a
  block or design a filter are checked against \<open>lib\<close> in the order of the source; the
  constructors of the base classes and \<^verbatim>\<open>self.connect\<close> receive nothing computed from
  the sample rate and are taken to return. The true divisions are points where
  ZeroDivisionError can be raised: the design rate of the second filter (line 107), the
  design rate of the audio filter (line 124) and the two divisions of the resampling ratio
  (line 133). The base gain is the float that the literal \<^verbatim>\<open>0.050\<close> denotes.
\<close>

definition TunerDemodWBFM_init_lib ::
    "(library_call \<Rightarrow> bool) \<Rightarrow> int \<Rightarrow> int \<Rightarrow> bool \<Rightarrow> int \<Rightarrow> real \<Rightarrow> error + tuner" where
  "TunerDemodWBFM_init_lib lib samp_rate a_rate rec a_bps min_rec =
     (let base = BaseTuner_init a_rate a_bps min_rec;
          squelch_db = - 60;
          gain0 = binary64 0.050;
          ds = decims_of samp_rate;
          low_pass_filter_taps_0 =
            \<lparr>gain = 1, sampling_freq = 1, cutoff_freq = 0.090, transition_width = 0.010,
             window = WIN_HAMMING\<rparr>;
          xlating =
            \<lparr>xlating_decimation = fst ds,
             xlating_taps = low_pass_filter_taps_0,
             xlating_center_freq = 0,
             xlating_sampling_freq = real_of_int samp_rate\<rparr>;
          fir_0 = \<lparr>decimation = fst ds, taps = low_pass_filter_taps_0\<rparr>;
          squelch_cc = \<lparr>db = squelch_db, alpha = 0.1, ramp = 0, gate = False\<rparr>;
          squelch_ff = \<lparr>db = - 200, alpha = 0.1, ramp = 0, gate = True\<rparr>
      in called lib (Firdes_low_pass low_pass_filter_taps_0)
        (called lib (Make (Xlating xlating))
        (called lib (Make (Fir fir_0))
        (case py_truediv (real_of_int samp_rate) (real_of_int ((fst ds)\<^sup>2)) of
           Inl e \<Rightarrow> Inl e
         | Inr fs1 \<Rightarrow>
        (let low_pass_filter_taps_1 =
               \<lparr>gain = 1, sampling_freq = fs1, cutoff_freq = 12500, transition_width = 1000,
                window = WIN_HAMMING\<rparr>;
             fir_1 = \<lparr>decimation = snd ds, taps = low_pass_filter_taps_1\<rparr>
         in called lib (Firdes_low_pass low_pass_filter_taps_1)
           (called lib (Make (Fir fir_1))
           (called lib (Make (Squelch squelch_cc))
           (called lib (Make (Quadrature_demod gain0))
           (case py_truediv (real_of_int samp_rate) (real_of_int (snd ds * (fst ds)\<^sup>2)) of
              Inl e \<Rightarrow> Inl e
            | Inr fs2 \<Rightarrow>
           (let low_pass_filter_taps_2 =
                  \<lparr>gain = 1, sampling_freq = fs2, cutoff_freq = 3500, transition_width = 500,
                   window = WIN_HAMMING\<rparr>;
                fir_fff = \<lparr>decimation = fst ds, taps = low_pass_filter_taps_2\<rparr>
            in called lib (Firdes_low_pass low_pass_filter_taps_2)
              (called lib (Make (Fir fir_fff))
              (case py_truediv_binary64 (real_of_int samp_rate)
                      (real_of_int (snd ds * (fst ds) ^ 3)) of
                 Inl e \<Rightarrow> Inl e
               | Inr fs3 \<Rightarrow>
              (case py_truediv_binary64 (real_of_int a_rate) fs3 of
                 Inl e \<Rightarrow> Inl e
               | Inr pfb_resamp \<Rightarrow>
                 called lib (Make (Resampler \<lparr>rate = pfb_resamp, flt_size = 32\<rparr>))
                 (called lib (Make (Squelch squelch_ff))
                 (case connect_recording rec (audio_bps base) a_rate of
                    (wav, null, rec_connections) \<Rightarrow>
                      called lib
                        (Make (case wav of Some w \<Rightarrow> Wavfile w | None \<Rightarrow> Null Sizeof_float))
                      (Inr
                        \<lparr>audio_rate = audio_rate base,
                         audio_bps = audio_bps base,
                         min_recording = min_recording base,
                         input_signature = Sizeof_gr_complex,
                         output_signature = Sizeof_float,
                         center_freq = 0,
                         quad_demod_gain = gain0,
                         file_name = None,
                         record_flag = rec,
                         decims = ds,
                         freq_xlating_fir_filter_ccc = xlating,
                         fir_filter_ccc_0 = fir_0,
                         fir_filter_ccc_1 = fir_1,
                         analog_pwr_squelch_cc = squelch_cc,
                         analog_quadrature_demod_cf = gain0,
                         fir_filter_fff_0 = fir_fff,
                         pfb_arb_resampler_fff = \<lparr>rate = pfb_resamp, flt_size = 32\<rparr>,
                         analog_pwr_squelch_ff = squelch_ff,
                         blocks_wavfile_sink = wav,
                         null_sink1 = null,
                         connections = demod_connections @ rec_connections,
                         ctcss_index = None,
                         ctcss_tone = None\<rparr>))))))))))))))))"

text \<open>
  Two behaviours of the library. \<open>accepts_all\<close> returns from every call.
  \<open>argument_checks\<close> refuses what GNU Radio documents that it refuses: a filter design
  whose sampling frequency or transition width is not positive or whose cutoff is not
  above 0 and at most half the sampling frequency, and a filter with a decimation below 1.
\<close>

definition accepts_all :: "library_call \<Rightarrow> bool" where
  "accepts_all c = True"

definition argument_checks :: "library_call \<Rightarrow> bool" where
  "argument_checks c =
     (case c of
        Firdes_low_pass d \<Rightarrow>
          0 < sampling_freq d \<and> 0 < cutoff_freq d \<and> cutoff_freq d \<le> sampling_freq d / 2
          \<and> 0 < transition_width d
      | Make (Xlating x) \<Rightarrow> 1 \<le> xlating_decimation x
      | Make (Fir f) \<Rightarrow> 1 \<le> decimation f
      | Make _ \<Rightarrow> True)"

text \<open>The constructor with a library that returns from every call.\<close>

definition TunerDemodWBFM_init :: "int \<Rightarrow> int \<Rightarrow> bool \<Rightarrow> int \<Rightarrow> real \<Rightarrow> error + tuner" where
  "TunerDemodWBFM_init = TunerDemodWBFM_init_lib accepts_all"

section \<open>Runtime control\<close>



text \<open>
  \<^verbatim>\<open>set_ctcss_tone\<close> (lines 182 to 192). The tone table \<^verbatim>\<open>ct.ctcss_tones\<close> belongs to
  a module outside the sources at hand and is a parameter. The result is the returned tone
  together with the updated object; an exception leaves the error only.
\<close>

definition set_ctcss_tone :: "real list \<Rightarrow> real \<Rightarrow> tuner \<Rightarrow> error + real \<times> tuner" where
  "set_ctcss_tone ctcss_tones tone t =
     (case py_index ctcss_tones tone of
        Inl e \<Rightarrow> Inl e
      | Inr i \<Rightarrow>
          (let i' = (if py_truth (py_invert i) then 0 else i)
           in case py_getitem ctcss_tones i' of
                Inl e \<Rightarrow> Inl e
              | Inr f \<Rightarrow> Inr (f, t\<lparr>ctcss_index := Some i', ctcss_tone := Some f\<rparr>)))"

section \<open>Sample rates and streams along the flowgraph\<close>

text \<open>
  The blocks feeding a node and the blocks a node feeds, read off the connections.
\<close>

definition sources_of :: "(block \<times> block) list \<Rightarrow> block \<Rightarrow> block list" where
  "sources_of cs n = map fst (filter (\<lambda>c. snd c = n) cs)"

definition targets_of :: "(block \<times> block) list \<Rightarrow> block \<Rightarrow> block list" where
  "targets_of cs n = map snd (filter (\<lambda>c. fst c = n) cs)"

text \<open>
  \<open>chain_to k cs n\<close> follows the connections back from the input of \<open>n\<close> to the input
  port \<open>Self\<close> and returns the blocks passed on the way, first block first. It needs a
  single source at every node and at most \<open>k\<close> steps.
\<close>

fun chain_to :: "nat \<Rightarrow> (block \<times> block) list \<Rightarrow> block \<Rightarrow> block list option" where
  "chain_to 0 cs n = None"
| "chain_to (Suc k) cs n =
     (case sources_of cs n of
        [b] \<Rightarrow> if b = Self then Some []
               else (case chain_to k cs b of None \<Rightarrow> None | Some bs \<Rightarrow> Some (bs @ [b]))
      | _ \<Rightarrow> None)"

text \<open>
  The ratio of output rate to input rate of a block: a decimating filter divides the rate
  by its factor, the resampler multiplies it by its ratio, the demodulator and a squelch
  that does not gate keep it. A gating squelch and the sinks have no fixed ratio.
\<close>

definition decimated :: "int \<Rightarrow> real option" where
  "decimated d = (if 1 \<le> d then Some (1 / real_of_int d) else None)"

definition rate_factor :: "tuner \<Rightarrow> block \<Rightarrow> real option" where
  "rate_factor t b =
     (case b of
        Freq_xlating_fir_filter_ccc \<Rightarrow>
          decimated (xlating_decimation (freq_xlating_fir_filter_ccc t))
      | Fir_filter_ccc_0 \<Rightarrow> decimated (decimation (fir_filter_ccc_0 t))
      | Fir_filter_ccc_1 \<Rightarrow> decimated (decimation (fir_filter_ccc_1 t))
      | Analog_pwr_squelch_cc \<Rightarrow> if gate (analog_pwr_squelch_cc t) then None else Some 1
      | Analog_quadrature_demod_cf \<Rightarrow> Some 1
      | Fir_filter_fff_0 \<Rightarrow> decimated (decimation (fir_filter_fff_0 t))
      | Pfb_arb_resampler_fff \<Rightarrow> Some (rate (pfb_arb_resampler_fff t))
      | Analog_pwr_squelch_ff \<Rightarrow> if gate (analog_pwr_squelch_ff t) then None else Some 1
      | _ \<Rightarrow> None)"

fun rate_through :: "tuner \<Rightarrow> real \<Rightarrow> block list \<Rightarrow> real option" where
  "rate_through t r [] = Some r"
| "rate_through t r (b # bs) =
     (case rate_factor t b of None \<Rightarrow> None | Some f \<Rightarrow> rate_through t (r * f) bs)"

text \<open>The sample rate at the input of node \<open>n\<close>, for the rate \<open>samp_rate\<close> at the input port.\<close>

definition rate_at :: "tuner \<Rightarrow> int \<Rightarrow> block \<Rightarrow> real option" where
  "rate_at t samp_rate n =
     (case chain_to (length (connections t)) (connections t) n of
        None \<Rightarrow> None
      | Some bs \<Rightarrow> rate_through t (real_of_int samp_rate) bs)"

text \<open>The library object behind a node, with the parameters it currently holds.\<close>

definition object_of :: "tuner \<Rightarrow> block \<Rightarrow> block_object" where
  "object_of t b =
     (case b of
        Self \<Rightarrow> Port
      | Freq_xlating_fir_filter_ccc \<Rightarrow> Xlating (freq_xlating_fir_filter_ccc t)
      | Fir_filter_ccc_0 \<Rightarrow> Fir (fir_filter_ccc_0 t)
      | Fir_filter_ccc_1 \<Rightarrow> Fir (fir_filter_ccc_1 t)
      | Analog_pwr_squelch_cc \<Rightarrow> Squelch (analog_pwr_squelch_cc t)
      | Analog_quadrature_demod_cf \<Rightarrow> Quadrature_demod (analog_quadrature_demod_cf t)
      | Fir_filter_fff_0 \<Rightarrow> Fir (fir_filter_fff_0 t)
      | Pfb_arb_resampler_fff \<Rightarrow> Resampler (pfb_arb_resampler_fff t)
      | Analog_pwr_squelch_ff \<Rightarrow> Squelch (analog_pwr_squelch_ff t)
      | Blocks_wavfile_sink \<Rightarrow>
          (case blocks_wavfile_sink t of None \<Rightarrow> Absent | Some w \<Rightarrow> Wavfile w)
      | Null_sink1 \<Rightarrow> (case null_sink1 t of None \<Rightarrow> Absent | Some n \<Rightarrow> Null n))"

fun run_chain :: "(block_object \<Rightarrow> 's list \<Rightarrow> 's list) \<Rightarrow> tuner \<Rightarrow> block list \<Rightarrow>
    's list \<Rightarrow> 's list" where
  "run_chain sem t [] xs = xs"
| "run_chain sem t (b # bs) xs = run_chain sem t bs (sem (object_of t b) xs)"

text \<open>
  The stream arriving at the input of node \<open>n\<close> when \<open>xs\<close> enters the input port;
  at \<open>Self\<close> it is the stream the block delivers at its output port.
\<close>

definition stream_at :: "(block_object \<Rightarrow> 's list \<Rightarrow> 's list) \<Rightarrow> tuner \<Rightarrow> block \<Rightarrow>
    's list \<Rightarrow> 's list option" where
  "stream_at sem t n xs =
     (case chain_to (length (connections t)) (connections t) n of
        None \<Rightarrow> None
      | Some bs \<Rightarrow> Some (run_chain sem t bs xs))"

section \<open>The power squelch\<close>

text \<open>
  Modelled from the spec: what \<^verbatim>\<open>analog.pwr_squelch_cc\<close> and \<^verbatim>\<open>analog.pwr_squelch_ff\<close>
  do to a stream is GNU Radio library code, absent from the sources at hand, which only fix
  the constructor arguments. Following the specification (SquelchState, the soft power
  squelch and the hard squelch gate): the block keeps a power estimate smoothed with the
  constant \<open>alpha\<close>; the gate is open when the estimate exceeds the threshold given in dB;
  with an open gate the sample passes; with a closed gate a squelch that does not block
  puts out a zero sample in its place, and a blocking squelch forwards nothing.
  The parameter \<open>p\<close> is the power estimate before the first sample.
\<close>

definition threshold :: "pwr_squelch \<Rightarrow> real" where
  "threshold q = 10 powr (db q / 10)"

definition estimate :: "pwr_squelch \<Rightarrow> real \<Rightarrow> 'a::real_normed_vector \<Rightarrow> real" where
  "estimate q p x = alpha q * (norm x)\<^sup>2 + (1 - alpha q) * p"

fun gate_states :: "pwr_squelch \<Rightarrow> real \<Rightarrow> 'a::real_normed_vector list \<Rightarrow> bool list" where
  "gate_states q p [] = []"
| "gate_states q p (x # xs) =
     (threshold q < estimate q p x) # gate_states q (estimate q p x) xs"

fun squelch :: "pwr_squelch \<Rightarrow> real \<Rightarrow> 'a::real_normed_vector list \<Rightarrow> 'a list" where
  "squelch q p [] = []"
| "squelch q p (x # xs) =
     (if threshold q < estimate q p x then x # squelch q (estimate q p x) xs
      else if gate q then squelch q (estimate q p x) xs
      else 0 # squelch q (estimate q p x) xs)"

section \<open>Rounding to binary64\<close>

lemma round_half_even_error: "\<bar>real_of_int (round_half_even y) - y\<bar> \<le> 1 / 2"
  unfolding round_half_even_def by (auto simp: abs_if) linarith+


text \<open>The rounding error is at most half the spacing of the binary64 numbers at \<open>x\<close>.\<close>

lemma binary64_half_spacing:
  "\<bar>binary64 x - x\<bar> \<le> 2 powr real_of_int (binary64_exponent x - 53)"
proof (cases "x = 0")
  case True
  then show ?thesis by (simp add: binary64_def)
next
  case False
  define ulp where "ulp = 2 powr real_of_int (binary64_exponent x - 52)"
  define r where "r = real_of_int (round_half_even (\<bar>x\<bar> / ulp))"
  have ulp_pos: "0 < ulp" unfolding ulp_def by simp
  have val: "binary64 x = sgn x * r * ulp"
    using False by (simp add: binary64_def ulp_def r_def)
  have "x = sgn x * \<bar>x\<bar>" by (simp add: sgn_mult_abs)
  then have "binary64 x - x = sgn x * ((r - \<bar>x\<bar> / ulp) * ulp)"
    using ulp_pos val by (simp add: algebra_simps)
  then have "\<bar>binary64 x - x\<bar> = \<bar>r - \<bar>x\<bar> / ulp\<bar> * ulp"
    using False ulp_pos by (simp add: abs_mult abs_sgn_eq)
  also have "\<dots> \<le> (1 / 2) * ulp"
    using round_half_even_error [of "\<bar>x\<bar> / ulp"] ulp_pos
    unfolding r_def by (simp add: mult_right_mono)
  also have "(1 / 2) * ulp = 2 powr real_of_int (binary64_exponent x - 53)"
  proof -
    have "real_of_int (binary64_exponent x - 53) = real_of_int (binary64_exponent x - 52) - 1"
      by simp
    then have "2 powr real_of_int (binary64_exponent x - 53)
        = 2 powr real_of_int (binary64_exponent x - 52) / 2 powr 1"
      by (simp only: powr_diff)
    then show ?thesis unfolding ulp_def by simp
  qed
  finally show ?thesis .
qed

lemma binary64_exponent_normal:
  assumes "2 powr (- 1022) \<le> x"
  shows "binary64_exponent x = \<lfloor>log 2 x\<rfloor>" and "2 powr real_of_int (binary64_exponent x) \<le> x"
proof -
  have pos: "0 < x" using assms powr_gt_zero [of 2 "- 1022"] by linarith
  have "- 1022 \<le> log 2 x" using assms pos by (simp add: le_log_iff)
  then have "- 1022 \<le> \<lfloor>log 2 x\<rfloor>" by linarith
  then show ex: "binary64_exponent x = \<lfloor>log 2 x\<rfloor>"
    using pos by (simp add: binary64_exponent_def)
  have "2 powr real_of_int \<lfloor>log 2 x\<rfloor> \<le> 2 powr log 2 x"
    by (simp only: powr_le_cancel_iff) simp_all
  also have "2 powr log 2 x = x" using pos by simp
  finally show "2 powr real_of_int (binary64_exponent x) \<le> x"
    using ex by simp
qed

text \<open>In the normal range the relative rounding error is at most \<open>2 ^ - 53\<close>.\<close>

lemma binary64_error:
  assumes "2 powr (- 1022) \<le> x"
  shows "\<bar>binary64 x - x\<bar> \<le> x / 2 ^ 53"
proof -
  have "2 powr real_of_int (binary64_exponent x - 53)
      = 2 powr real_of_int (binary64_exponent x) / 2 powr 53"
    by (simp add: powr_diff)
  also have "\<dots> \<le> x / 2 powr 53"
    using binary64_exponent_normal(2) [OF assms] by (simp add: divide_right_mono)
  finally have "2 powr real_of_int (binary64_exponent x - 53) \<le> x / 2 ^ 53" by simp
  then show ?thesis using binary64_half_spacing [of x] by linarith
qed

lemma binary64_pos:
  assumes "2 powr (- 1022) \<le> x"
  shows "0 < binary64 x"
proof -
  have pos: "0 < x" using assms powr_gt_zero [of 2 "- 1022"] by linarith
  have "x / 2 ^ 53 < x" using pos by (simp add: divide_less_eq)
  then show ?thesis using binary64_error [OF assms] by linarith
qed

text \<open>Evaluation of \<open>binary64\<close> at a positive number whose binary exponent is known.\<close>

lemma binary64_eval:
  assumes "2 powr real_of_int e \<le> x" and "x < 2 powr real_of_int (e + 1)" and "- 1022 \<le> e"
  shows "binary64 x =
    real_of_int (round_half_even (x / 2 powr real_of_int (e - 52))) * 2 powr real_of_int (e - 52)"
proof -
  have pos: "0 < x" using assms(1) powr_gt_zero [of 2 "real_of_int e"] by linarith
  have "\<lfloor>log 2 x\<rfloor> = e"
    using assms(1,2) pos by (simp add: floor_log_eq_powr_iff)
  then have "binary64_exponent x = e"
    using assms(3) pos by (simp add: binary64_exponent_def)
  then show ?thesis using pos by (simp add: binary64_def)
qed


section \<open>Facts about the constructor\<close>

lemma py_int_div: "0 \<le> r \<Longrightarrow> py_int (real_of_int r / 1000000) = r div 1000000"
proof -
  assume "0 \<le> r"
  then have "0 \<le> real_of_int r / 1000000" by simp
  moreover have "\<lfloor>real_of_int r / real_of_int 1000000\<rfloor> = r div 1000000"
    by (rule floor_divide_of_int_eq)
  ultimately show ?thesis by (simp add: py_int_def)
qed

lemma py_int_small:
  assumes "- 1000000 < r" and "r < 1000000"
  shows "py_int (real_of_int r / 1000000) = 0"
proof (cases "0 \<le> r")
  case True
  then have "r div 1000000 = 0" using assms by simp
  then show ?thesis using True by (simp add: py_int_div)
next
  case False
  then have neg: "real_of_int r / 1000000 < 0" by simp
  have "- 1 < real_of_int r / 1000000" using assms by simp
  then have "\<lceil>real_of_int r / 1000000\<rceil> = 0" using neg
    by (simp add: ceiling_eq_iff)
  then show ?thesis using neg by (simp add: py_int_def)
qed

lemma py_int_large:
  assumes "1000000 \<le> r"
  shows "1 \<le> py_int (real_of_int r / 1000000)"
proof -
  have "1 \<le> r div 1000000" using assms by simp
  then show ?thesis using assms by (simp add: py_int_div)
qed

text \<open>
  With a stage-2 factor that is not zero the quotient of line 133 is at least 8000, so it
  does not round to 0.
\<close>

lemma prerate_ge:
  assumes "snd (decims_of R) \<noteq> 0"
  shows "8000 \<le> real_of_int R / (real_of_int (snd (decims_of R)) * 125)"
proof (cases "0 \<le> real_of_int R / 1000000")
  case True
  define d where "d = \<lfloor>real_of_int R / 1000000\<rfloor>"
  have d: "snd (decims_of R) = d" using True by (simp add: decims_of_def py_int_def d_def)
  have "0 \<le> d" using True unfolding d_def by simp
  then have dpos: "0 < real_of_int d" using assms d by simp
  have "real_of_int d * 1000000 \<le> real_of_int R"
    using of_int_floor_le [of "real_of_int R / 1000000"] unfolding d_def by linarith
  then have "8000 * (real_of_int d * 125) \<le> real_of_int R" by simp
  then have "8000 \<le> real_of_int R / (real_of_int d * 125)"
    using dpos by (simp add: pos_le_divide_eq)
  then show ?thesis using d by simp
next
  case False
  define d where "d = \<lceil>real_of_int R / 1000000\<rceil>"
  have d: "snd (decims_of R) = d" using False by (simp add: decims_of_def py_int_def d_def)
  have "d \<le> 0" using False unfolding d_def by (simp add: ceiling_le_iff)
  then have dneg: "real_of_int d < 0" using assms d by simp
  have "real_of_int R \<le> real_of_int d * 1000000"
    using le_of_int_ceiling [of "real_of_int R / 1000000"] unfolding d_def by linarith
  then have "real_of_int R \<le> 8000 * (real_of_int d * 125)" by simp
  then have "8000 \<le> real_of_int R / (real_of_int d * 125)"
    using dneg by (simp add: neg_le_divide_eq)
  then show ?thesis using d by simp
qed

lemma prerate_rounded_pos:
  assumes "snd (decims_of R) \<noteq> 0"
  shows "0 < binary64 (real_of_int R / (real_of_int (snd (decims_of R)) * 125))"
proof -
  have "2 powr (- 1022) \<le> (2::real) powr 0" by (simp only: powr_le_cancel_iff)
  then have "2 powr (- 1022) \<le> real_of_int R / (real_of_int (snd (decims_of R)) * 125)"
    using prerate_ge [OF assms] by simp
  then show ?thesis by (rule binary64_pos)
qed

text \<open>
  When the stage-2 factor is not zero no division of the constructor raises, and the
  object it returns holds the following blocks and connections.
\<close>

lemma init_fields:
  assumes "snd (decims_of R) \<noteq> 0"
  shows "\<exists>t. TunerDemodWBFM_init R A rec bps mr = Inr t
    \<and> decims t = decims_of R
    \<and> audio_bps t = bps
    \<and> record_flag t = rec
    \<and> quad_demod_gain t = binary64 0.050
    \<and> analog_quadrature_demod_cf t = binary64 0.050
    \<and> freq_xlating_fir_filter_ccc t =
        \<lparr>xlating_decimation = 5,
         xlating_taps = \<lparr>gain = 1, sampling_freq = 1, cutoff_freq = 0.090,
                         transition_width = 0.010, window = WIN_HAMMING\<rparr>,
         xlating_center_freq = 0, xlating_sampling_freq = real_of_int R\<rparr>
    \<and> fir_filter_ccc_0 t =
        \<lparr>decimation = 5,
         taps = \<lparr>gain = 1, sampling_freq = 1, cutoff_freq = 0.090,
                 transition_width = 0.010, window = WIN_HAMMING\<rparr>\<rparr>
    \<and> fir_filter_ccc_1 t =
        \<lparr>decimation = snd (decims_of R),
         taps = \<lparr>gain = 1, sampling_freq = real_of_int R / 25, cutoff_freq = 12500,
                 transition_width = 1000, window = WIN_HAMMING\<rparr>\<rparr>
    \<and> analog_pwr_squelch_cc t = \<lparr>db = - 60, alpha = 0.1, ramp = 0, gate = False\<rparr>
    \<and> fir_filter_fff_0 t =
        \<lparr>decimation = 5,
         taps = \<lparr>gain = 1,
                 sampling_freq = real_of_int R / real_of_int (snd (decims_of R) * 25),
                 cutoff_freq = 3500, transition_width = 500, window = WIN_HAMMING\<rparr>\<rparr>
    \<and> pfb_arb_resampler_fff t =
        \<lparr>rate = binary64 (real_of_int A /
                  binary64 (real_of_int R / (real_of_int (snd (decims_of R)) * 125))),
         flt_size = 32\<rparr>
    \<and> analog_pwr_squelch_ff t = \<lparr>db = - 200, alpha = 0.1, ramp = 0, gate = True\<rparr>
    \<and> connections t = demod_connections @ snd (snd (connect_recording rec bps A))
    \<and> blocks_wavfile_sink t = fst (connect_recording rec bps A)
    \<and> null_sink1 t = fst (snd (connect_recording rec bps A))"
proof -
  have nz: "binary64 (real_of_int R / (real_of_int (snd (decims_of R)) * 125)) \<noteq> 0"
    using prerate_rounded_pos [OF assms] by simp
  have fst5: "fst (decims_of R) = 5" by (simp add: decims_of_def)
  show ?thesis using assms nz
    by (simp add: TunerDemodWBFM_init_def TunerDemodWBFM_init_lib_def called_def
        accepts_all_def Let_def py_truediv_def py_truediv_binary64_def BaseTuner_init_def
        fst5 split: prod.splits)
qed

lemma init_lib_zero_factor:
  assumes "snd (decims_of R) = 0"
  shows "TunerDemodWBFM_init_lib lib R A rec bps mr = Inl ZeroDivisionError
    \<or> (\<exists>c. TunerDemodWBFM_init_lib lib R A rec bps mr = Inl (LibraryError c) \<and> \<not> lib c)"
  using assms
  by (simp add: TunerDemodWBFM_init_lib_def called_def Let_def py_truediv_def)

text \<open>The chains of the constructed flowgraph, for either sink branch.\<close>

lemma chain_Self:
  assumes "cs = demod_connections @ snd (snd (connect_recording rec bps A))"
  shows "chain_to (length cs) cs Self =
    Some [Freq_xlating_fir_filter_ccc, Fir_filter_ccc_0, Fir_filter_ccc_1,
      Analog_pwr_squelch_cc, Analog_quadrature_demod_cf, Fir_filter_fff_0,
      Pfb_arb_resampler_fff]"
  unfolding assms
  by (simp add: demod_connections_def connect_recording_def sources_of_def numeral_eq_Suc)

lemma chain_Pfb:
  assumes "cs = demod_connections @ snd (snd (connect_recording rec bps A))"
  shows "chain_to (length cs) cs Pfb_arb_resampler_fff =
    Some [Freq_xlating_fir_filter_ccc, Fir_filter_ccc_0, Fir_filter_ccc_1,
      Analog_pwr_squelch_cc, Analog_quadrature_demod_cf, Fir_filter_fff_0]"
  unfolding assms
  by (simp add: demod_connections_def connect_recording_def sources_of_def numeral_eq_Suc)

lemma chain_Fir_1:
  assumes "cs = demod_connections @ snd (snd (connect_recording rec bps A))"
  shows "chain_to (length cs) cs Fir_filter_ccc_1 =
    Some [Freq_xlating_fir_filter_ccc, Fir_filter_ccc_0]"
  unfolding assms
  by (simp add: demod_connections_def connect_recording_def sources_of_def numeral_eq_Suc)

lemma chain_Fir_0:
  assumes "cs = demod_connections @ snd (snd (connect_recording rec bps A))"
  shows "chain_to (length cs) cs Fir_filter_ccc_0 = Some [Freq_xlating_fir_filter_ccc]"
  unfolding assms
  by (simp add: demod_connections_def connect_recording_def sources_of_def numeral_eq_Suc)

section \<open>The stage-2 decimation factor\<close>

text \<open>
  C8. The stage-2 decimation factor is \<open>floor (samp_rate / 1e6)\<close>: it is 1 for a sample rate
  of 1,000,000, 1 for 1,960,000 and 2 for exactly 2,000,000; for every sample rate that is
  not negative the factor is the floor of the quotient.
\<close>

theorem stage2_factor_floor:
  "snd (decims_of 1000000) = 1
   \<and> snd (decims_of 1960000) = 1
   \<and> snd (decims_of 2000000) = 2
   \<and> (\<forall>R\<ge>0. snd (decims_of R) = \<lfloor>real_of_int R / 1000000\<rfloor>)"
  by (simp add: decims_of_def py_int_def)

theorem stage2_factor_floor_witness:
  "(0::int) \<le> 1960000 \<and> snd (decims_of 1960000) = \<lfloor>real_of_int 1960000 / 1000000\<rfloor>
   \<and> \<lfloor>real_of_int 1960000 / 1000000\<rfloor> = 1"
  using stage2_factor_floor by simp

section \<open>The output rate\<close>

lemma prerate_example: "binary64 (1025316 / 125) = 4509387456579109 / 2 ^ 39"
proof -
  have "binary64 (1025316 / 125) =
      real_of_int (round_half_even ((1025316 / 125) / 2 powr real_of_int (13 - 52)))
        * 2 powr real_of_int (13 - 52)"
    by (rule binary64_eval) simp_all
  also have "\<dots> = 4509387456579109 / 2 ^ 39"
    by (simp add: round_half_even_def powr_minus divide_simps)
  finally show ?thesis .
qed

lemma ratio_example:
  "binary64 (8000 / (4509387456579109 / 2 ^ 39)) = 8784803177499417 / 2 ^ 53"
proof -
  have "binary64 (8000 / (4509387456579109 / 2 ^ 39)) =
      real_of_int (round_half_even ((8000 / (4509387456579109 / 2 ^ 39))
          / 2 powr real_of_int (- 1 - 52)))
        * 2 powr real_of_int (- 1 - 52)"
    by (rule binary64_eval) (simp_all add: powr_minus)
  also have "\<dots> = 8784803177499417 / 2 ^ 53"
    by (simp add: round_half_even_def powr_minus divide_simps)
  finally show ?thesis .
qed

lemma product_example:
  "binary64 (4509387456579109 / 2 ^ 39 * (8784803177499417 / 2 ^ 53)) = 8000 + 1 / 2 ^ 40"
proof -
  have "binary64 (4509387456579109 / 2 ^ 39 * (8784803177499417 / 2 ^ 53)) =
      real_of_int (round_half_even ((4509387456579109 / 2 ^ 39 * (8784803177499417 / 2 ^ 53))
          / 2 powr real_of_int (12 - 52)))
        * 2 powr real_of_int (12 - 52)"
    by (rule binary64_eval) simp_all
  also have "\<dots> = 8000 + 1 / 2 ^ 40"
    by (simp add: round_half_even_def powr_minus divide_simps)
  finally show ?thesis .
qed

text \<open>
  C2, as the specification states it: for every input rate between 1,000,000 and 2,000,000
  the final output rate, the rate before the resampler times the resampling ratio, is
  exactly the audio rate. The ratio is a float (line 133). For an input rate of 1,025,316
  and an audio rate of 8000 the rate before the resampler is 1025316 / 125, the ratio is
  \<open>8784803177499417 / 2 ^ 53\<close> and their product exceeds 8000 by
  60193 / 281474976710656000; multiplied as floats, the rounded rate and the ratio give
  \<open>8000 + 2 ^ - 40\<close>.
\<close>

theorem output_rate_not_exact:
  "\<not> isl (TunerDemodWBFM_init 1025316 8000 False 8 0)
   \<and> rate_at (projr (TunerDemodWBFM_init 1025316 8000 False 8 0)) 1025316
        Pfb_arb_resampler_fff = Some (1025316 / 125)
   \<and> rate (pfb_arb_resampler_fff (projr (TunerDemodWBFM_init 1025316 8000 False 8 0)))
        = 8784803177499417 / 2 ^ 53
   \<and> rate_at (projr (TunerDemodWBFM_init 1025316 8000 False 8 0)) 1025316 Self
        = Some (8000 + 60193 / 281474976710656000)
   \<and> binary64 (binary64 (1025316 / 125)
        * rate (pfb_arb_resampler_fff (projr (TunerDemodWBFM_init 1025316 8000 False 8 0))))
        = 8000 + 1 / 2 ^ 40"
proof -
  have d: "snd (decims_of 1025316) = 1" by (simp add: decims_of_def py_int_def)
  then have "snd (decims_of 1025316) \<noteq> 0" by simp
  from init_fields [OF this, of 8000 False 8 0]
  obtain t where t: "TunerDemodWBFM_init 1025316 8000 False 8 0 = Inr t"
    "xlating_decimation (freq_xlating_fir_filter_ccc t) = 5"
    "decimation (fir_filter_ccc_0 t) = 5"
    "decimation (fir_filter_ccc_1 t) = 1"
    "gate (analog_pwr_squelch_cc t) = False"
    "decimation (fir_filter_fff_0 t) = 5"
    "rate (pfb_arb_resampler_fff t) = binary64 (8000 / binary64 (1025316 / 125))"
    "connections t = demod_connections @ snd (snd (connect_recording False 8 8000))"
    using d by auto
  have r: "rate (pfb_arb_resampler_fff t) = 8784803177499417 / 2 ^ 53"
    by (simp only: t(7) prerate_example ratio_example)
  have pre: "rate_at t 1025316 Pfb_arb_resampler_fff = Some (1025316 / 125)"
    using t(2-6) by (simp add: rate_at_def chain_Pfb [OF t(8)] rate_factor_def decimated_def)
  have out: "rate_at t 1025316 Self = Some (8000 + 60193 / 281474976710656000)"
    using t(2-6) r
    by (simp add: rate_at_def chain_Self [OF t(8)] rate_factor_def decimated_def)
  have prod: "binary64 (binary64 (1025316 / 125) * rate (pfb_arb_resampler_fff t))
      = 8000 + 1 / 2 ^ 40"
    by (simp only: r prerate_example product_example)
  show ?thesis using t(1) r pre out prod by simp
qed

text \<open>
  C2, amended: for every input sample rate \<open>R\<close> with 1,000,000 \<open>\<le>\<close> \<open>R\<close> < 2,000,000 and
  every audio rate \<open>A\<close> of 8000 or 16000 the constructor returns a demodulator whose rate
  before the resampler is \<open>R / (floor (R / 1e6) * 5 ^ 3)\<close> and whose resampling ratio is
  the float nearest to \<open>A\<close> divided by the float nearest to that rate; the final output
  rate, their product, equals \<open>A\<close> up to the rounding of the two float divisions: it
  differs from \<open>A\<close> by at most \<open>A / 2 ^ 51\<close>, whatever \<open>R\<close> is.
\<close>

theorem output_rate_constant:
  assumes "1000000 \<le> R" and "R < 2000000" and "A = 8000 \<or> A = 16000"
  shows "\<exists>t out. TunerDemodWBFM_init R A rec bps mr = Inr t
    \<and> rate_at t R Pfb_arb_resampler_fff =
        Some (real_of_int R / (real_of_int \<lfloor>real_of_int R / 1000000\<rfloor> * 5 ^ 3))
    \<and> rate (pfb_arb_resampler_fff t) =
        binary64 (real_of_int A /
          binary64 (real_of_int R / (real_of_int \<lfloor>real_of_int R / 1000000\<rfloor> * 5 ^ 3)))
    \<and> rate_at t R Self = Some out
    \<and> \<bar>out - real_of_int A\<bar> \<le> real_of_int A / 2 ^ 51"
proof -
  have d: "snd (decims_of R) = 1"
  proof -
    have "R div 1000000 = 1" using assms(1,2) by simp
    then show ?thesis using assms(1) by (simp add: decims_of_def py_int_div)
  qed
  have fl: "\<lfloor>real_of_int R / 1000000\<rfloor> = 1"
    using d assms(1) by (simp add: decims_of_def py_int_def)
  define x where "x = real_of_int R / 125"
  define x' where "x' = binary64 x"
  define y where "y = real_of_int A / x'"
  define p where "p = binary64 y"
  have Apos: "0 < real_of_int A" "real_of_int A \<le> 16000" "8000 \<le> real_of_int A"
    using assms(3) by auto
  have xr: "8000 \<le> x" "x < 16000" using assms(1,2) unfolding x_def by simp_all
  have small: "2 powr (- 1022) \<le> (2::real) powr (- 2)"
    by (simp only: powr_le_cancel_iff)
  have q: "(2::real) powr (- 2) = 1 / 4" by (simp add: powr_minus)
  have xn: "2 powr (- 1022) \<le> x" using small q xr(1) by linarith
  have e1: "\<bar>x' - x\<bar> \<le> x / 2 ^ 53" unfolding x'_def by (rule binary64_error [OF xn])
  have half: "x / 2 ^ 53 \<le> x / 2"
    using xr(1) by (intro divide_left_mono) simp_all
  have x'lo: "x / 2 \<le> x'" and x'hi: "x' \<le> 2 * x"
    using e1 half xr(1) by linarith+
  have x'pos: "0 < x'" using x'lo xr(1) by linarith
  have ypos: "0 < y" unfolding y_def using Apos(1) x'pos by simp
  have x'y: "x' * y = real_of_int A" unfolding y_def using x'pos by simp
  have ylo: "1 / 4 \<le> y"
  proof -
    have "x' \<le> 4 * real_of_int A" using x'hi xr(2) Apos(3) by linarith
    then show ?thesis unfolding y_def using x'pos by (simp add: pos_le_divide_eq)
  qed
  have yn: "2 powr (- 1022) \<le> y" using small q ylo by linarith
  have e2: "\<bar>p - y\<bar> \<le> y / 2 ^ 53" unfolding p_def by (rule binary64_error [OF yn])
  have xy: "x * y \<le> 2 * real_of_int A"
  proof -
    have "x * y \<le> (2 * x') * y"
      using x'lo ypos by (intro mult_right_mono) simp_all
    then show ?thesis using x'y by (simp add: mult.assoc)
  qed
  have "x * p - real_of_int A = x * (p - y) + y * (x - x')"
    using x'y by (simp add: algebra_simps)
  then have "\<bar>x * p - real_of_int A\<bar> \<le> \<bar>x * (p - y)\<bar> + \<bar>y * (x - x')\<bar>"
    using abs_triangle_ineq [of "x * (p - y)" "y * (x - x')"] by simp
  also have "\<dots> = x * \<bar>p - y\<bar> + y * \<bar>x' - x\<bar>"
    using xr(1) ypos by (simp add: abs_mult abs_minus_commute)
  also have "\<dots> \<le> x * (y / 2 ^ 53) + y * (x / 2 ^ 53)"
    using e1 e2 xr(1) ypos by (intro add_mono mult_left_mono) simp_all
  also have "\<dots> = (x * y) / 2 ^ 52" by simp
  also have "\<dots> \<le> (2 * real_of_int A) / 2 ^ 52"
    using xy by (simp add: divide_right_mono)
  also have "\<dots> = real_of_int A / 2 ^ 51" by simp
  finally have bound: "\<bar>x * p - real_of_int A\<bar> \<le> real_of_int A / 2 ^ 51" .
  from d obtain t where t: "TunerDemodWBFM_init R A rec bps mr = Inr t"
    "xlating_decimation (freq_xlating_fir_filter_ccc t) = 5"
    "decimation (fir_filter_ccc_0 t) = 5"
    "decimation (fir_filter_ccc_1 t) = 1"
    "gate (analog_pwr_squelch_cc t) = False"
    "decimation (fir_filter_fff_0 t) = 5"
    "rate (pfb_arb_resampler_fff t) = binary64 (real_of_int A / binary64 (real_of_int R / 125))"
    "connections t = demod_connections @ snd (snd (connect_recording rec bps A))"
    using init_fields [of R A rec bps mr] by auto
  have r: "rate (pfb_arb_resampler_fff t) = p"
    unfolding p_def y_def x'_def x_def by (rule t(7))
  have pre: "rate_at t R Pfb_arb_resampler_fff = Some (real_of_int R / 125)"
    using t(2-6) by (simp add: rate_at_def chain_Pfb [OF t(8)] rate_factor_def decimated_def)
  have out: "rate_at t R Self = Some (x * p)"
    using t(2-6) r
    by (simp add: rate_at_def chain_Self [OF t(8)] rate_factor_def decimated_def x_def)
  show ?thesis using t(1,7) pre out fl bound by simp
qed

theorem output_rate_constant_witness:
  "(1000000::int) \<le> 1960000 \<and> (1960000::int) < 2000000
   \<and> (\<exists>t out. TunerDemodWBFM_init 1960000 8000 False 8 0 = Inr t
        \<and> rate_at t 1960000 Pfb_arb_resampler_fff = Some 15680
        \<and> rate (pfb_arb_resampler_fff t) = binary64 (8000 / binary64 15680)
        \<and> rate_at t 1960000 Self = Some out
        \<and> \<bar>out - 8000\<bar> \<le> 8000 / 2 ^ 51)"
  using output_rate_constant [of 1960000 8000 False 8 0] by simp

section \<open>Sample rates below the minimum\<close>

text \<open>
  C4, as the specification states it: every sample rate below 1,000,000 makes the
  constructor fail with a ConfigurationError instead of going on with a factor that is not
  positive. The constructor checks nothing and has no such error. At 800,000 the factor is
  0 and the constructor goes on with it: it hands it to the library as the decimation of
  the second filter, and a library that returns from every call lets the constructor reach
  the ZeroDivisionError of the audio filter's design rate; a library that checks its
  arguments ends the construction with its own exception, at that filter for 800,000 and
  already at the filter design for 500,000, whose cutoff is above half the design rate.
\<close>

theorem low_rate_no_configuration_error:
  "TunerDemodWBFM_init_lib accepts_all 800000 8000 False 8 0 = Inl ZeroDivisionError
   \<and> TunerDemodWBFM_init_lib argument_checks 800000 8000 False 8 0 =
       Inl (LibraryError (Make (Fir
         \<lparr>decimation = 0,
          taps = \<lparr>gain = 1, sampling_freq = 32000, cutoff_freq = 12500,
                  transition_width = 1000, window = WIN_HAMMING\<rparr>\<rparr>)))
   \<and> TunerDemodWBFM_init_lib argument_checks 500000 8000 False 8 0 =
       Inl (LibraryError (Firdes_low_pass
         \<lparr>gain = 1, sampling_freq = 20000, cutoff_freq = 12500,
          transition_width = 1000, window = WIN_HAMMING\<rparr>))"
  by (simp add: TunerDemodWBFM_init_lib_def called_def accepts_all_def argument_checks_def
      Let_def py_truediv_def decims_of_def py_int_def)

text \<open>
  C4, amended: for every input sample rate above 0 and below 1,000,000 the stage-2 factor
  is 0 and constructing the demodulator fails, whatever the library accepts: either a
  library call refuses its arguments and its exception ends the construction, or the
  design rate of the audio filter raises ZeroDivisionError (which it does when the library
  returns from every call). With a library that checks its arguments the failure is the
  library's exception. The constructor never raises a ConfigurationError.
\<close>

theorem low_rate_fails:
  assumes "0 < R" and "R < 1000000"
  shows "snd (decims_of R) = 0
    \<and> (TunerDemodWBFM_init_lib lib R A rec bps mr = Inl ZeroDivisionError
        \<or> (\<exists>c. TunerDemodWBFM_init_lib lib R A rec bps mr = Inl (LibraryError c)))
    \<and> TunerDemodWBFM_init R A rec bps mr = Inl ZeroDivisionError
    \<and> (\<exists>c. TunerDemodWBFM_init_lib argument_checks R A rec bps mr = Inl (LibraryError c))"
proof -
  have d: "snd (decims_of R) = 0"
    using assms by (simp add: decims_of_def py_int_small)
  have any: "TunerDemodWBFM_init_lib lib R A rec bps mr = Inl ZeroDivisionError
      \<or> (\<exists>c. TunerDemodWBFM_init_lib lib R A rec bps mr = Inl (LibraryError c))"
    using init_lib_zero_factor [OF d, of lib A rec bps mr] by blast
  have all: "TunerDemodWBFM_init R A rec bps mr = Inl ZeroDivisionError"
    using d
    by (simp add: TunerDemodWBFM_init_def TunerDemodWBFM_init_lib_def called_def
        accepts_all_def Let_def py_truediv_def)
  have chk: "\<exists>c. TunerDemodWBFM_init_lib argument_checks R A rec bps mr = Inl (LibraryError c)"
    using d
    by (simp add: TunerDemodWBFM_init_lib_def called_def argument_checks_def Let_def
        py_truediv_def)
  show ?thesis using d any all chk by blast
qed

theorem low_rate_fails_witness:
  "(0::int) < 999999 \<and> (999999::int) < 1000000
   \<and> snd (decims_of 999999) = 0
   \<and> TunerDemodWBFM_init 999999 16000 True 16 0 = Inl ZeroDivisionError
   \<and> (\<exists>c. TunerDemodWBFM_init_lib argument_checks 999999 16000 True 16 0
          = Inl (LibraryError c))"
  using low_rate_fails [of 999999 argument_checks 16000 True 16 0] by simp

section \<open>The design rate of the stage-2 filter\<close>

text \<open>
  C7, as the specification states it: the stage-2 low-pass filter is designed at the output
  rate of stage 1, which is \<open>samp_rate / 5\<close>. For a sample rate of 1,000,000 the rate
  after the frequency translating filter is 200,000, while the filter is designed at 40,000.
\<close>

theorem stage2_design_rate_not_fifth:
  "\<not> isl (TunerDemodWBFM_init 1000000 8000 False 8 0)
   \<and> sampling_freq (taps (fir_filter_ccc_1 (projr (TunerDemodWBFM_init 1000000 8000 False 8 0))))
       = 40000
   \<and> rate_at (projr (TunerDemodWBFM_init 1000000 8000 False 8 0)) 1000000 Fir_filter_ccc_0
       = Some 200000
   \<and> (40000::real) \<noteq> 1000000 / 5"
proof -
  have d: "snd (decims_of 1000000) = 1" by (simp add: decims_of_def py_int_def)
  then have "snd (decims_of 1000000) \<noteq> 0" by simp
  from init_fields [OF this, of 8000 False 8 0]
  obtain t where t: "TunerDemodWBFM_init 1000000 8000 False 8 0 = Inr t"
    "xlating_decimation (freq_xlating_fir_filter_ccc t) = 5"
    "sampling_freq (taps (fir_filter_ccc_1 t)) = 1000000 / 25"
    "connections t = demod_connections @ snd (snd (connect_recording False 8 8000))"
    by auto
  have "rate_at t 1000000 Fir_filter_ccc_0 = Some 200000"
    using t(2) by (simp add: rate_at_def chain_Fir_0 [OF t(4)] rate_factor_def decimated_def)
  then show ?thesis using t(1,3) by simp
qed

text \<open>
  C7, amended: the stage-2 low-pass filter (12.5 kHz cutoff, 1 kHz transition, Hamming
  window) is designed at \<open>samp_rate / 25\<close>, the rate at its own input, which lies behind
  the two filters that decimate by 5; the rate behind the first of them is
  \<open>samp_rate / 5\<close>.
\<close>

theorem stage2_design_rate:
  assumes "1000000 \<le> R"
  shows "\<exists>t. TunerDemodWBFM_init R A rec bps mr = Inr t
    \<and> taps (fir_filter_ccc_1 t) =
        \<lparr>gain = 1, sampling_freq = real_of_int R / 25, cutoff_freq = 12500,
         transition_width = 1000, window = WIN_HAMMING\<rparr>
    \<and> rate_at t R Fir_filter_ccc_1 = Some (real_of_int R / 25)
    \<and> rate_at t R Fir_filter_ccc_0 = Some (real_of_int R / 5)"
proof -
  have "snd (decims_of R) \<noteq> 0"
    using py_int_large [OF assms] by (simp add: decims_of_def)
  then obtain t where t: "TunerDemodWBFM_init R A rec bps mr = Inr t"
    "xlating_decimation (freq_xlating_fir_filter_ccc t) = 5"
    "decimation (fir_filter_ccc_0 t) = 5"
    "taps (fir_filter_ccc_1 t) =
        \<lparr>gain = 1, sampling_freq = real_of_int R / 25, cutoff_freq = 12500,
         transition_width = 1000, window = WIN_HAMMING\<rparr>"
    "connections t = demod_connections @ snd (snd (connect_recording rec bps A))"
    using init_fields [of R A rec bps mr] by auto
  have r1: "rate_at t R Fir_filter_ccc_1 = Some (real_of_int R / 25)"
    using t(2,3) by (simp add: rate_at_def chain_Fir_1 [OF t(5)] rate_factor_def decimated_def)
  have r0: "rate_at t R Fir_filter_ccc_0 = Some (real_of_int R / 5)"
    using t(2) by (simp add: rate_at_def chain_Fir_0 [OF t(5)] rate_factor_def decimated_def)
  show ?thesis using t(1,4) r1 r0 by simp
qed

theorem stage2_design_rate_witness:
  "(1000000::int) \<le> 1960000
   \<and> (\<exists>t. TunerDemodWBFM_init 1960000 8000 False 8 0 = Inr t
        \<and> sampling_freq (taps (fir_filter_ccc_1 t)) = 78400
        \<and> rate_at t 1960000 Fir_filter_ccc_1 = Some 78400
        \<and> rate_at t 1960000 Fir_filter_ccc_0 = Some 392000)"
  using stage2_design_rate [of 1960000 8000 False 8 0] by auto

section \<open>The audio sink\<close>

text \<open>
  C9. Whenever the constructor returns, the hard squelch is fed by the resampler and is
  followed by one sink. With the record flag set the sink is the wav file sink, and its
  sample format is 16-bit PCM for a bit depth of 16, 8-bit PCM for a bit depth of 8 and
  16-bit PCM for every other bit depth, without an error; with the flag clear the sink is
  the null sink and there is no wav file sink.
\<close>

theorem sink_selection:
  assumes "snd (decims_of R) \<noteq> 0"
  shows "\<exists>t. TunerDemodWBFM_init R A rec bps mr = Inr t
    \<and> sources_of (connections t) Analog_pwr_squelch_ff = [Pfb_arb_resampler_fff]
    \<and> (if rec then
         targets_of (connections t) Analog_pwr_squelch_ff = [Blocks_wavfile_sink]
         \<and> sources_of (connections t) Blocks_wavfile_sink = [Analog_pwr_squelch_ff]
         \<and> null_sink1 t = None
         \<and> blocks_wavfile_sink t =
             Some \<lparr>filename = ''/dev/null'', n_channels = 1, sample_rate = A,
                   format = FORMAT_WAV,
                   subformat = (if bps = 16 then FORMAT_PCM_16
                                else if bps = 8 then FORMAT_PCM_08 else FORMAT_PCM_16),
                   append = False\<rparr>
       else
         targets_of (connections t) Analog_pwr_squelch_ff = [Null_sink1]
         \<and> sources_of (connections t) Null_sink1 = [Analog_pwr_squelch_ff]
         \<and> null_sink1 t = Some Sizeof_float
         \<and> blocks_wavfile_sink t = None)"
proof -
  from assms obtain t where t: "TunerDemodWBFM_init R A rec bps mr = Inr t"
    "connections t = demod_connections @ snd (snd (connect_recording rec bps A))"
    "blocks_wavfile_sink t = fst (connect_recording rec bps A)"
    "null_sink1 t = fst (snd (connect_recording rec bps A))"
    using init_fields [of R A rec bps mr] by auto
  show ?thesis
    using t by (simp add: connect_recording_def demod_connections_def sources_of_def
        targets_of_def wav_format_of_def)
qed

theorem sink_selection_witness:
  "snd (decims_of 1000000) \<noteq> 0
   \<and> (\<exists>t. TunerDemodWBFM_init 1000000 8000 True 24 0 = Inr t
        \<and> targets_of (connections t) Analog_pwr_squelch_ff = [Blocks_wavfile_sink]
        \<and> blocks_wavfile_sink t =
            Some \<lparr>filename = ''/dev/null'', n_channels = 1, sample_rate = 8000,
                  format = FORMAT_WAV, subformat = FORMAT_PCM_16, append = False\<rparr>)"
proof -
  have h: "snd (decims_of 1000000) \<noteq> 0" by (simp add: decims_of_def py_int_def)
  show ?thesis using h sink_selection [OF h, of 8000 True 24 0] by auto
qed

section \<open>The delivered audio and the hard squelch\<close>

lemma chain_wavfile_sink:
  assumes "cs = demod_connections @ snd (snd (connect_recording True bps A))"
  shows "chain_to (length cs) cs Blocks_wavfile_sink =
    Some ([Freq_xlating_fir_filter_ccc, Fir_filter_ccc_0, Fir_filter_ccc_1,
      Analog_pwr_squelch_cc, Analog_quadrature_demod_cf, Fir_filter_fff_0,
      Pfb_arb_resampler_fff] @ [Analog_pwr_squelch_ff])"
  unfolding assms
  by (simp add: demod_connections_def connect_recording_def sources_of_def numeral_eq_Suc)

lemma chain_null_sink:
  assumes "cs = demod_connections @ snd (snd (connect_recording False bps A))"
  shows "chain_to (length cs) cs Null_sink1 =
    Some ([Freq_xlating_fir_filter_ccc, Fir_filter_ccc_0, Fir_filter_ccc_1,
      Analog_pwr_squelch_cc, Analog_quadrature_demod_cf, Fir_filter_fff_0,
      Pfb_arb_resampler_fff] @ [Analog_pwr_squelch_ff])"
  unfolding assms
  by (simp add: demod_connections_def connect_recording_def sources_of_def numeral_eq_Suc)

lemma run_chain_snoc:
  "run_chain sem t (bs @ [b]) xs = sem (object_of t b) (run_chain sem t bs xs)"
  by (induction bs arbitrary: xs) simp_all

lemma run_chain_same_objects:
  assumes "\<forall>b \<in> set bs. object_of t b = object_of t' b"
  shows "run_chain sem t bs xs = run_chain sem t' bs xs"
  using assms by (induction bs arbitrary: xs) simp_all

lemma run_chain_other_object:
  assumes "\<forall>b \<in> set bs. object_of t b \<noteq> ob"
  shows "run_chain (sem (ob := h)) t bs xs = run_chain sem t bs xs"
  using assms by (induction bs arbitrary: xs) simp_all

text \<open>
  C10. The output port is fed by the polyphase resampler, which also feeds the hard squelch;
  the hard squelch feeds the sink only (the wav file sink with the record flag, the null
  sink without it). So the stream delivered at the output port is the same for both values
  of the record flag, it does not change when the hard squelch is given any other
  behaviour \<open>h\<close> (such as forwarding nothing), and what reaches the sink is the delivered
  stream passed through the hard squelch.
\<close>

theorem output_tapped_before_hard_squelch:
  assumes "snd (decims_of R) \<noteq> 0"
  shows "\<exists>t1 t2. TunerDemodWBFM_init R A True bps mr = Inr t1
    \<and> TunerDemodWBFM_init R A False bps mr = Inr t2
    \<and> sources_of (connections t1) Self = [Pfb_arb_resampler_fff]
    \<and> sources_of (connections t2) Self = [Pfb_arb_resampler_fff]
    \<and> targets_of (connections t1) Pfb_arb_resampler_fff = [Self, Analog_pwr_squelch_ff]
    \<and> targets_of (connections t2) Pfb_arb_resampler_fff = [Self, Analog_pwr_squelch_ff]
    \<and> targets_of (connections t1) Analog_pwr_squelch_ff = [Blocks_wavfile_sink]
    \<and> targets_of (connections t2) Analog_pwr_squelch_ff = [Null_sink1]
    \<and> (\<forall>sem xs. stream_at sem t1 Self xs = stream_at sem t2 Self xs)
    \<and> (\<forall>sem h xs.
          stream_at (sem (Squelch (analog_pwr_squelch_ff t1) := h)) t1 Self xs =
            stream_at sem t1 Self xs
          \<and> stream_at (sem (Squelch (analog_pwr_squelch_ff t2) := h)) t2 Self xs =
            stream_at sem t2 Self xs)
    \<and> (\<forall>sem xs.
          stream_at sem t1 Blocks_wavfile_sink xs =
            map_option (sem (Squelch (analog_pwr_squelch_ff t1))) (stream_at sem t1 Self xs)
          \<and> stream_at sem t2 Null_sink1 xs =
            map_option (sem (Squelch (analog_pwr_squelch_ff t2))) (stream_at sem t2 Self xs))"
proof -
  let ?chain = "[Freq_xlating_fir_filter_ccc, Fir_filter_ccc_0, Fir_filter_ccc_1,
      Analog_pwr_squelch_cc, Analog_quadrature_demod_cf, Fir_filter_fff_0,
      Pfb_arb_resampler_fff]"
  from init_fields [OF assms, of A True bps mr]
  obtain t1 where t1: "TunerDemodWBFM_init R A True bps mr = Inr t1"
    and cs1: "connections t1 = demod_connections @ snd (snd (connect_recording True bps A))"
    and o1: "analog_quadrature_demod_cf t1 = binary64 0.050"
      "freq_xlating_fir_filter_ccc t1 =
        \<lparr>xlating_decimation = 5,
         xlating_taps = \<lparr>gain = 1, sampling_freq = 1, cutoff_freq = 0.090,
                         transition_width = 0.010, window = WIN_HAMMING\<rparr>,
         xlating_center_freq = 0, xlating_sampling_freq = real_of_int R\<rparr>"
      "fir_filter_ccc_0 t1 =
        \<lparr>decimation = 5,
         taps = \<lparr>gain = 1, sampling_freq = 1, cutoff_freq = 0.090,
                 transition_width = 0.010, window = WIN_HAMMING\<rparr>\<rparr>"
      "fir_filter_ccc_1 t1 =
        \<lparr>decimation = snd (decims_of R),
         taps = \<lparr>gain = 1, sampling_freq = real_of_int R / 25, cutoff_freq = 12500,
                 transition_width = 1000, window = WIN_HAMMING\<rparr>\<rparr>"
      "analog_pwr_squelch_cc t1 = \<lparr>db = - 60, alpha = 0.1, ramp = 0, gate = False\<rparr>"
      "fir_filter_fff_0 t1 =
        \<lparr>decimation = 5,
         taps = \<lparr>gain = 1,
                 sampling_freq = real_of_int R / real_of_int (snd (decims_of R) * 25),
                 cutoff_freq = 3500, transition_width = 500, window = WIN_HAMMING\<rparr>\<rparr>"
      "pfb_arb_resampler_fff t1 =
        \<lparr>rate = binary64 (real_of_int A /
                  binary64 (real_of_int R / (real_of_int (snd (decims_of R)) * 125))),
         flt_size = 32\<rparr>"
      "analog_pwr_squelch_ff t1 = \<lparr>db = - 200, alpha = 0.1, ramp = 0, gate = True\<rparr>"
    by blast
  from init_fields [OF assms, of A False bps mr]
  obtain t2 where t2: "TunerDemodWBFM_init R A False bps mr = Inr t2"
    and cs2: "connections t2 = demod_connections @ snd (snd (connect_recording False bps A))"
    and o2: "analog_quadrature_demod_cf t2 = binary64 0.050"
      "freq_xlating_fir_filter_ccc t2 =
        \<lparr>xlating_decimation = 5,
         xlating_taps = \<lparr>gain = 1, sampling_freq = 1, cutoff_freq = 0.090,
                         transition_width = 0.010, window = WIN_HAMMING\<rparr>,
         xlating_center_freq = 0, xlating_sampling_freq = real_of_int R\<rparr>"
      "fir_filter_ccc_0 t2 =
        \<lparr>decimation = 5,
         taps = \<lparr>gain = 1, sampling_freq = 1, cutoff_freq = 0.090,
                 transition_width = 0.010, window = WIN_HAMMING\<rparr>\<rparr>"
      "fir_filter_ccc_1 t2 =
        \<lparr>decimation = snd (decims_of R),
         taps = \<lparr>gain = 1, sampling_freq = real_of_int R / 25, cutoff_freq = 12500,
                 transition_width = 1000, window = WIN_HAMMING\<rparr>\<rparr>"
      "analog_pwr_squelch_cc t2 = \<lparr>db = - 60, alpha = 0.1, ramp = 0, gate = False\<rparr>"
      "fir_filter_fff_0 t2 =
        \<lparr>decimation = 5,
         taps = \<lparr>gain = 1,
                 sampling_freq = real_of_int R / real_of_int (snd (decims_of R) * 25),
                 cutoff_freq = 3500, transition_width = 500, window = WIN_HAMMING\<rparr>\<rparr>"
      "pfb_arb_resampler_fff t2 =
        \<lparr>rate = binary64 (real_of_int A /
                  binary64 (real_of_int R / (real_of_int (snd (decims_of R)) * 125))),
         flt_size = 32\<rparr>"
      "analog_pwr_squelch_ff t2 = \<lparr>db = - 200, alpha = 0.1, ramp = 0, gate = True\<rparr>"
    by blast
  have out1: "stream_at sem t1 Self xs = Some (run_chain sem t1 ?chain xs)" for sem :: "block_object \<Rightarrow> 's list \<Rightarrow> 's list" and xs
    by (simp only: stream_at_def chain_Self [OF cs1] option.case)
  have out2: "stream_at sem t2 Self xs = Some (run_chain sem t2 ?chain xs)" for sem :: "block_object \<Rightarrow> 's list \<Rightarrow> 's list" and xs
    by (simp only: stream_at_def chain_Self [OF cs2] option.case)
  have graph: "sources_of (connections t1) Self = [Pfb_arb_resampler_fff]"
    "sources_of (connections t2) Self = [Pfb_arb_resampler_fff]"
    "targets_of (connections t1) Pfb_arb_resampler_fff = [Self, Analog_pwr_squelch_ff]"
    "targets_of (connections t2) Pfb_arb_resampler_fff = [Self, Analog_pwr_squelch_ff]"
    "targets_of (connections t1) Analog_pwr_squelch_ff = [Blocks_wavfile_sink]"
    "targets_of (connections t2) Analog_pwr_squelch_ff = [Null_sink1]"
    by (simp_all add: cs1 cs2 demod_connections_def connect_recording_def sources_of_def
        targets_of_def)
  have same: "\<forall>b \<in> set ?chain. object_of t1 b = object_of t2 b"
    by (simp add: object_of_def o1 o2)
  have eq: "stream_at sem t1 Self xs = stream_at sem t2 Self xs" for sem :: "block_object \<Rightarrow> 's list \<Rightarrow> 's list" and xs
    by (simp only: out1 out2 run_chain_same_objects [OF same])
  have other1: "\<forall>b \<in> set ?chain. object_of t1 b \<noteq> Squelch (analog_pwr_squelch_ff t1)"
    by (simp add: object_of_def o1)
  have other2: "\<forall>b \<in> set ?chain. object_of t2 b \<noteq> Squelch (analog_pwr_squelch_ff t2)"
    by (simp add: object_of_def o2)
  have ind1: "stream_at (sem (Squelch (analog_pwr_squelch_ff t1) := h)) t1 Self xs =
      stream_at sem t1 Self xs" for sem :: "block_object \<Rightarrow> 's list \<Rightarrow> 's list" and h xs
    by (simp only: out1 run_chain_other_object [OF other1])
  have ind2: "stream_at (sem (Squelch (analog_pwr_squelch_ff t2) := h)) t2 Self xs =
      stream_at sem t2 Self xs" for sem :: "block_object \<Rightarrow> 's list \<Rightarrow> 's list" and h xs
    by (simp only: out2 run_chain_other_object [OF other2])
  have sink1: "stream_at sem t1 Blocks_wavfile_sink xs =
      map_option (sem (Squelch (analog_pwr_squelch_ff t1))) (stream_at sem t1 Self xs)"
    for sem :: "block_object \<Rightarrow> 's list \<Rightarrow> 's list" and xs
  proof -
    have "stream_at sem t1 Blocks_wavfile_sink xs =
        Some (sem (object_of t1 Analog_pwr_squelch_ff) (run_chain sem t1 ?chain xs))"
      by (simp only: stream_at_def chain_wavfile_sink [OF cs1] option.case run_chain_snoc)
    then show ?thesis by (simp add: out1 object_of_def)
  qed
  have sink2: "stream_at sem t2 Null_sink1 xs =
      map_option (sem (Squelch (analog_pwr_squelch_ff t2))) (stream_at sem t2 Self xs)"
    for sem :: "block_object \<Rightarrow> 's list \<Rightarrow> 's list" and xs
  proof -
    have "stream_at sem t2 Null_sink1 xs =
        Some (sem (object_of t2 Analog_pwr_squelch_ff) (run_chain sem t2 ?chain xs))"
      by (simp only: stream_at_def chain_null_sink [OF cs2] option.case run_chain_snoc)
    then show ?thesis by (simp add: out2 object_of_def)
  qed
  show ?thesis
    using t1 t2 graph eq ind1 ind2 sink1 sink2 by blast
qed

theorem output_tapped_before_hard_squelch_witness:
  "snd (decims_of 1000000) \<noteq> 0
   \<and> (\<exists>t1 t2. TunerDemodWBFM_init 1000000 8000 True 8 0 = Inr t1
        \<and> TunerDemodWBFM_init 1000000 8000 False 8 0 = Inr t2
        \<and> sources_of (connections t1) Self = [Pfb_arb_resampler_fff]
        \<and> targets_of (connections t1) Analog_pwr_squelch_ff = [Blocks_wavfile_sink]
        \<and> targets_of (connections t2) Analog_pwr_squelch_ff = [Null_sink1]
        \<and> (\<forall>sem. stream_at sem t1 Self [1, 2, 3 :: real] = stream_at sem t2 Self [1, 2, 3]))"
proof -
  have h: "snd (decims_of 1000000) \<noteq> 0" by (simp add: decims_of_def py_int_def)
  show ?thesis
    using h output_tapped_before_hard_squelch [OF h, of 8000 8 0, where ?'a = real] by blast
qed

section \<open>The volume\<close>





















section \<open>The CTCSS tone\<close>

lemma py_index_absent: "x \<notin> set xs \<Longrightarrow> py_index xs x = Inl ValueError"
  by (induction xs) auto

lemma py_index_present:
  "x \<in> set xs \<Longrightarrow> \<exists>i. py_index xs x = Inr i \<and> 0 \<le> i \<and> i < int (length xs) \<and> xs ! nat i = x"
proof (induction xs)
  case Nil
  then show ?case by simp
next
  case (Cons y ys)
  show ?case
  proof (cases "y = x")
    case True
    then show ?thesis by simp
  next
    case False
    with Cons obtain i where i: "py_index ys x = Inr i" "0 \<le> i" "i < int (length ys)"
      "ys ! nat i = x"
      by auto
    have "nat (i + 1) = Suc (nat i)" using i(2) by simp
    then show ?thesis using False i by simp
  qed
qed

text \<open>
  C1 asks that a tone of the table is returned itself and that its own index is recorded.
  The method does otherwise: \<open>~index\<close> is never zero for an index that \<open>index()\<close> returns,
  so the index is always replaced by 0, and the first tone of the table is returned and
  recorded, whichever tone of the table was asked for.
\<close>

theorem tone_in_table_selects_first:
  assumes "tone \<in> set ctcss_tones"
  shows "set_ctcss_tone ctcss_tones tone t =
    Inr (ctcss_tones ! 0, t\<lparr>ctcss_index := Some 0, ctcss_tone := Some (ctcss_tones ! 0)\<rparr>)"
proof -
  from py_index_present [OF assms]
  obtain i where i: "py_index ctcss_tones tone = Inr i" "0 \<le> i" by blast
  have "ctcss_tones \<noteq> []" using assms by auto
  then have "py_getitem ctcss_tones 0 = Inr (ctcss_tones ! 0)"
    by (simp add: py_getitem_def)
  moreover have "py_truth (py_invert i)"
    using i(2) by (simp add: py_truth_def py_invert_def)
  ultimately show ?thesis using i(1) by (simp add: set_ctcss_tone_def)
qed

theorem tone_in_table_selects_first_witness:
  "(71.9 :: real) \<in> set [67.0, 69.3, 71.9]
   \<and> py_index [67.0, 69.3, 71.9 :: real] 71.9 = Inr 2
   \<and> (\<forall>t. map_sum id fst (set_ctcss_tone [67.0, 69.3, 71.9] 71.9 t) = Inr 67.0
          \<and> map_sum id (ctcss_index \<circ> snd) (set_ctcss_tone [67.0, 69.3, 71.9] 71.9 t)
              = Inr (Some 0))"
proof -
  have h: "(71.9 :: real) \<in> set [67.0, 69.3, 71.9]" by simp
  show ?thesis using h tone_in_table_selects_first [OF h] by simp
qed

text \<open>
  C3. For every frequency that is not in the tone table \<open>set_ctcss_tone\<close> fails with
  the ValueError that \<open>index()\<close> raises for a value not in the list; it does not return
  the first entry of the table (nor any other).
\<close>

theorem tone_absent_fails:
  assumes "tone \<notin> set ctcss_tones"
  shows "set_ctcss_tone ctcss_tones tone t = Inl ValueError"
  using assms by (simp add: set_ctcss_tone_def py_index_absent)

theorem tone_absent_fails_witness:
  "(100 :: real) \<notin> set [67.0, 69.3, 71.9]
   \<and> (\<forall>t. set_ctcss_tone [67.0, 69.3, 71.9] 100 t = Inl ValueError)"
proof -
  have h: "(100 :: real) \<notin> set [67.0, 69.3, 71.9]" by simp
  show ?thesis using h tone_absent_fails [OF h] by simp
qed

section \<open>The two squelches\<close>

lemma length_gate_states: "length (gate_states q p xs) = length xs"
  by (induction xs arbitrary: p) simp_all

lemma squelch_not_gating:
  "\<not> gate q \<Longrightarrow>
    squelch q p xs = map2 (\<lambda>x g. if g then x else 0) xs (gate_states q p xs)"
  by (induction xs arbitrary: p) simp_all

lemma squelch_gating:
  "gate q \<Longrightarrow> squelch q p xs = map fst (filter snd (zip xs (gate_states q p xs)))"
  by (induction xs arbitrary: p) simp_all

lemma length_squelch_not_gating: "\<not> gate q \<Longrightarrow> length (squelch q p xs) = length xs"
  by (induction xs arbitrary: p) simp_all

lemma length_squelch_le: "length (squelch q p xs) \<le> length xs"
proof (induction xs arbitrary: p)
  case Nil
  then show ?case by simp
next
  case (Cons x xs)
  have "length (squelch q (estimate q p x) xs) \<le> length xs" by (rule Cons.IH)
  then show ?case by simp
qed

text \<open>
  C5. The constructor configures the soft squelch with threshold \<open>-60\<close> dB, smoothing 0.1
  and no gating, and the hard squelch with threshold \<open>-200\<close> dB and gating. For every
  input stream the soft squelch puts out one sample per input sample, the input sample
  where its gate is open and zero where it is closed. The hard squelch puts out the
  samples at which its gate is open and nothing for the others, so its output is never
  longer than its input and can be shorter: on three zero samples it puts out nothing.
\<close>

theorem soft_squelch_keeps_length:
  assumes "snd (decims_of R) \<noteq> 0"
  shows "\<exists>t. TunerDemodWBFM_init R A rec bps mr = Inr t
    \<and> analog_pwr_squelch_cc t = \<lparr>db = - 60, alpha = 0.1, ramp = 0, gate = False\<rparr>
    \<and> analog_pwr_squelch_ff t = \<lparr>db = - 200, alpha = 0.1, ramp = 0, gate = True\<rparr>
    \<and> (\<forall>p (xs :: complex list).
          length (squelch (analog_pwr_squelch_cc t) p xs) = length xs
          \<and> squelch (analog_pwr_squelch_cc t) p xs =
              map2 (\<lambda>x g. if g then x else 0) xs (gate_states (analog_pwr_squelch_cc t) p xs))
    \<and> (\<forall>p (ys :: real list).
          squelch (analog_pwr_squelch_ff t) p ys =
              map fst (filter snd (zip ys (gate_states (analog_pwr_squelch_ff t) p ys)))
          \<and> length (squelch (analog_pwr_squelch_ff t) p ys) \<le> length ys)
    \<and> squelch (analog_pwr_squelch_ff t) 0 [0, 0, 0 :: real] = []
    \<and> squelch (analog_pwr_squelch_cc t) 0 [0, 0, 0 :: complex] = [0, 0, 0]"
proof -
  from init_fields [OF assms, of A rec bps mr]
  obtain t where t: "TunerDemodWBFM_init R A rec bps mr = Inr t"
    and cc: "analog_pwr_squelch_cc t = \<lparr>db = - 60, alpha = 0.1, ramp = 0, gate = False\<rparr>"
    and ff: "analog_pwr_squelch_ff t = \<lparr>db = - 200, alpha = 0.1, ramp = 0, gate = True\<rparr>"
    by blast
  have ncc: "\<not> gate (analog_pwr_squelch_cc t)" by (simp add: cc)
  have gff: "gate (analog_pwr_squelch_ff t)" by (simp add: ff)
  have z1: "squelch (analog_pwr_squelch_ff t) 0 [0, 0, 0 :: real] = []"
    by (simp add: ff threshold_def estimate_def)
  have z2: "squelch (analog_pwr_squelch_cc t) 0 [0, 0, 0 :: complex] = [0, 0, 0]"
    by (simp add: cc threshold_def estimate_def)
  show ?thesis
    using t cc ff length_squelch_not_gating [OF ncc] squelch_not_gating [OF ncc]
      squelch_gating [OF gff] length_squelch_le z1 z2
    by blast
qed

theorem soft_squelch_keeps_length_witness:
  "snd (decims_of 1000000) \<noteq> 0
   \<and> (\<exists>t. TunerDemodWBFM_init 1000000 8000 True 8 0 = Inr t
        \<and> gate (analog_pwr_squelch_cc t) = False
        \<and> gate (analog_pwr_squelch_ff t) = True
        \<and> length (squelch (analog_pwr_squelch_cc t) 0 [0, 1, 0 :: complex]) = 3
        \<and> squelch (analog_pwr_squelch_ff t) 0 [0, 0, 0 :: real] = [])"
proof -
  have h: "snd (decims_of 1000000) \<noteq> 0" by (simp add: decims_of_def py_int_def)
  from soft_squelch_keeps_length [OF h, of 8000 True 8 0]
  obtain t where t: "TunerDemodWBFM_init 1000000 8000 True 8 0 = Inr t"
    and cc: "analog_pwr_squelch_cc t = \<lparr>db = - 60, alpha = 0.1, ramp = 0, gate = False\<rparr>"
    and ff: "analog_pwr_squelch_ff t = \<lparr>db = - 200, alpha = 0.1, ramp = 0, gate = True\<rparr>"
    and len: "\<forall>p (xs :: complex list).
          length (squelch (analog_pwr_squelch_cc t) p xs) = length xs
          \<and> squelch (analog_pwr_squelch_cc t) p xs =
              map2 (\<lambda>x g. if g then x else 0) xs (gate_states (analog_pwr_squelch_cc t) p xs)"
    and z: "squelch (analog_pwr_squelch_ff t) 0 [0, 0, 0 :: real] = []"
    by blast
  have "length (squelch (analog_pwr_squelch_cc t) 0 [0, 1, 0 :: complex]) =
      length [0, 1, 0 :: complex]"
    using len by blast
  then have "length (squelch (analog_pwr_squelch_cc t) 0 [0, 1, 0 :: complex]) = 3"
    by simp
  moreover have "gate (analog_pwr_squelch_cc t) = False" "gate (analog_pwr_squelch_ff t) = True"
    by (simp_all add: cc ff)
  ultimately show ?thesis using h t z by blast
qed

end
